theory Spec2Isabelle
  imports Main "HOL-Library.Word"
begin

section \<open>The translation unit \<^verbatim>\<open>Python/pycore_backoff.c\<close>\<close>

text \<open>
  The file consists of comments, four \<^verbatim>\<open>#include\<close> directives and seven file-scope
  object definitions of the shape \<^verbatim>\<open>int NAME = INITIALIZER;\<close>. It is embedded as the list
  of its top-level items, in source order; a comment is recorded by the line it stands on
  (lines 1, 7, 20 and 22; line 7 is the commented-out \<^verbatim>\<open>#include "optimizer.c"\<close>), its
  text has no effect. The datatypes below have one constructor for
  each kind of item a C file can hold at top level, so that the absence of a kind in this
  file is a statement about the list and not about the type.
\<close>

subsection \<open>Syntax of top-level items\<close>

datatype storage_class = No_specifier | Static | Extern

datatype c_type = C_char | C_short | C_int | C_long | C_double | C_pointer c_type

text \<open>
  An initializer of the file is either the name of a preprocessor macro
  (\<^verbatim>\<open>= JUMP_BACKWARD_INITIAL_VALUE\<close>) or a decimal integer literal (\<^verbatim>\<open>= 333\<close>).
\<close>

datatype initializer = Macro string | Literal int

record object_def =
  storage :: storage_class
  const_qualified :: bool
  ctype :: c_type
  name :: string
  init :: "initializer option"

datatype toplevel =
    Comment nat
  | Include string
  | Object_def object_def
  | Function_def string
  | Type_def string

text \<open>\<^verbatim>\<open>int NAME = INITIALIZER;\<close>: no storage-class specifier, no qualifier.\<close>

definition int_def :: "string \<Rightarrow> initializer \<Rightarrow> toplevel" where
  "int_def n e =
     Object_def \<lparr>storage = No_specifier, const_qualified = False, ctype = C_int,
                 name = n, init = Some e\<rparr>"

subsection \<open>The file\<close>

definition pycore_backoff_c :: "toplevel list" where
  "pycore_backoff_c =
    [ Comment 1,
      Include ''Python.h'',
      Include ''pycore_backoff.h'',
      Include ''pycore_optimizer.h'',
      Include ''pycore_code.h'',
      Comment 7,
      int_def ''_Py_JumpBackwardInitialValue'' (Macro ''JUMP_BACKWARD_INITIAL_VALUE''),
      int_def ''_Py_JumpBackwardInitialBackoff'' (Macro ''JUMP_BACKWARD_INITIAL_BACKOFF''),
      int_def ''_Py_SideExitInitialValue'' (Macro ''SIDE_EXIT_INITIAL_VALUE''),
      int_def ''_Py_SideExitInitialBackoff'' (Macro ''SIDE_EXIT_INITIAL_BACKOFF''),
      int_def ''_Py_AdaptiveCoolDownValue'' (Macro ''ADAPTIVE_COOLDOWN_VALUE''),
      int_def ''_Py_MaxChainDepth'' (Macro ''MAX_CHAIN_DEPTH''),
      int_def ''_Py_ConfidenceLowerLimit'' (Literal 333),
      Comment 20,
      Comment 22 ]"

subsection \<open>Reading the file\<close>

fun objects :: "toplevel list \<Rightarrow> object_def list" where
  "objects [] = []"
| "objects (Object_def d # ts) = d # objects ts"
| "objects (_ # ts) = objects ts"

definition defined_names :: "toplevel list \<Rightarrow> string list" where
  "defined_names tu = map name (objects tu)"

fun lookup_object :: "toplevel list \<Rightarrow> string \<Rightarrow> object_def option" where
  "lookup_object tu n = find (\<lambda>d. name d = n) (objects tu)"

fun is_function_def :: "toplevel \<Rightarrow> bool" where
  "is_function_def (Function_def _) = True"
| "is_function_def _ = False"

fun is_type_def :: "toplevel \<Rightarrow> bool" where
  "is_type_def (Type_def _) = True"
| "is_type_def _ = False"

text \<open>
  A plain initialized integer global: type \<^verbatim>\<open>int\<close>, an initializer, no qualifier.
\<close>

definition plain_int_global :: "object_def \<Rightarrow> bool" where
  "plain_int_global d = (ctype d = C_int \<and> init d \<noteq> None \<and> \<not> const_qualified d)"

fun macro_initialized :: "object_def \<Rightarrow> bool" where
  "macro_initialized d = (case init d of Some (Macro _) \<Rightarrow> True | _ \<Rightarrow> False)"

fun literal_initialized :: "object_def \<Rightarrow> bool" where
  "literal_initialized d = (case init d of Some (Literal _) \<Rightarrow> True | _ \<Rightarrow> False)"

text \<open>
  Linkage of a file-scope object (C11 6.2.2): \<^verbatim>\<open>static\<close> gives internal linkage; with
  \<^verbatim>\<open>extern\<close> or with no storage-class specifier the identifier has external linkage.
\<close>

datatype linkage = External | Internal

fun linkage_of :: "object_def \<Rightarrow> linkage" where
  "linkage_of d = (case storage d of Static \<Rightarrow> Internal | _ \<Rightarrow> External)"

text \<open>
  Another translation unit that declares \<^verbatim>\<open>extern int n;\<close> is linked against this file's
  definition exactly when the file defines \<open>n\<close> with external linkage.
\<close>

fun extern_visible :: "toplevel list \<Rightarrow> string \<Rightarrow> bool" where
  "extern_visible tu n =
     (case lookup_object tu n of None \<Rightarrow> False | Some d \<Rightarrow> linkage_of d = External)"

subsection \<open>Static initialization\<close>

text \<open>
  The macros are defined in the included headers, which are not part of the file: the
  values of their replacement expressions are a parameter \<open>m\<close>, from macro names to
  integers. A C \<^verbatim>\<open>int\<close> is a 32-bit two's complement word; the value of the initializer
  is converted to it. The program state is a store from identifiers with static storage
  to their values.
\<close>

type_synonym macro_env = "string \<rightharpoonup> int"

type_synonym c_int = "32 word"

type_synonym store = "string \<rightharpoonup> c_int"

datatype error = Undefined_macro string | Unsupported_type string

fun eval_init :: "macro_env \<Rightarrow> initializer \<Rightarrow> error + c_int" where
  "eval_init m (Literal k) = Inr (word_of_int k)"
| "eval_init m (Macro x) =
     (case m x of None \<Rightarrow> Inl (Undefined_macro x) | Some v \<Rightarrow> Inr (word_of_int v))"

text \<open>
  An object without initializer is zero-initialized. Only \<^verbatim>\<open>int\<close> objects are covered
  (the file defines no other).
\<close>

definition init_value :: "macro_env \<Rightarrow> object_def \<Rightarrow> error + c_int" where
  "init_value m d =
     (if ctype d \<noteq> C_int then Inl (Unsupported_type (name d))
      else case init d of None \<Rightarrow> Inr 0 | Some e \<Rightarrow> eval_init m e)"

fun init_item :: "macro_env \<Rightarrow> toplevel \<Rightarrow> store \<Rightarrow> error + store" where
  "init_item m (Object_def d) s =
     (case init_value m d of Inl e \<Rightarrow> Inl e | Inr v \<Rightarrow> Inr (s(name d \<mapsto> v)))"
| "init_item m _ s = Inr s"

fun static_init :: "macro_env \<Rightarrow> toplevel list \<Rightarrow> store \<Rightarrow> error + store" where
  "static_init m [] s = Inr s"
| "static_init m (t # ts) s =
     (case init_item m t s of Inl e \<Rightarrow> Inl e | Inr s' \<Rightarrow> static_init m ts s')"

fun macros_used :: "toplevel list \<Rightarrow> string list" where
  "macros_used [] = []"
| "macros_used (Object_def d # ts) =
     (case init d of Some (Macro x) \<Rightarrow> x # macros_used ts | _ \<Rightarrow> macros_used ts)"
| "macros_used (_ # ts) = macros_used ts"

definition macro_defined :: "macro_env \<Rightarrow> string \<Rightarrow> bool" where
  "macro_defined m x = (m x \<noteq> None)"

text \<open>
  The values of the file's globals after initialization, in the order of their
  definitions, or the error that stopped it.
\<close>

definition globals_after :: "macro_env \<Rightarrow> toplevel list \<Rightarrow> store \<Rightarrow> error + c_int option list" where
  "globals_after m tu s =
     (case static_init m tu s of Inl e \<Rightarrow> Inl e | Inr s' \<Rightarrow> Inr (map s' (defined_names tu)))"

definition integer_globals :: "toplevel list \<Rightarrow> object_def list" where
  "integer_globals tu = filter (\<lambda>d. ctype d = C_int) (objects tu)"

definition initializer_of :: "toplevel list \<Rightarrow> string \<Rightarrow> initializer option" where
  "initializer_of tu n = (case lookup_object tu n of None \<Rightarrow> None | Some d \<Rightarrow> init d)"

subsection \<open>A sample macro environment\<close>

text \<open>Values for the six macros the file uses, to run the initialization on.\<close>

definition example_macros :: macro_env where
  "example_macros =
     [''JUMP_BACKWARD_INITIAL_VALUE'' \<mapsto> 4095, ''JUMP_BACKWARD_INITIAL_BACKOFF'' \<mapsto> 12,
      ''SIDE_EXIT_INITIAL_VALUE'' \<mapsto> 4095, ''SIDE_EXIT_INITIAL_BACKOFF'' \<mapsto> 12,
      ''ADAPTIVE_COOLDOWN_VALUE'' \<mapsto> 52, ''MAX_CHAIN_DEPTH'' \<mapsto> 4]"

section \<open>Properties of static initialization\<close>

lemma init_item_keeps_other_names:
  "init_item m t s = Inr s' \<Longrightarrow> n \<notin> set (defined_names (t # ts)) \<Longrightarrow> s' n = s n"
  by (cases t) (auto simp: defined_names_def split: sum.splits)

lemma defined_names_tail:
  "n \<notin> set (defined_names (t # ts)) \<Longrightarrow> n \<notin> set (defined_names ts)"
  by (cases t) (simp_all add: defined_names_def)

lemma static_init_keeps_other_names:
  "static_init m ts s = Inr s' \<Longrightarrow> n \<notin> set (defined_names ts) \<Longrightarrow> s' n = s n"
proof (induction ts arbitrary: s)
  case Nil
  then show ?case by simp
next
  case (Cons t ts)
  from Cons.prems(1) obtain s1 where
    step: "init_item m t s = Inr s1" and rest: "static_init m ts s1 = Inr s'"
    by (auto split: sum.splits)
  have "s1 n = s n"
    using step Cons.prems(2) by (rule init_item_keeps_other_names)
  moreover have "s' n = s1 n"
    using rest defined_names_tail [OF Cons.prems(2)] by (rule Cons.IH)
  ultimately show ?case by simp
qed

lemma init_item_error_indep:
  "(init_item m t s1 = Inl e) = (init_item m t s2 = Inl e)"
  by (cases t) (auto split: sum.splits)

lemma init_item_returns:
  "init_item m t s1 = Inr a \<Longrightarrow> \<exists>b. init_item m t s2 = Inr b"
  by (cases t) (auto split: sum.splits)

lemma init_item_agree:
  assumes "init_item m t s1 = Inr a" and "init_item m t s2 = Inr b"
    and "n \<in> set (defined_names (t # ts)) \<or> s1 n = s2 n"
  shows "n \<in> set (defined_names ts) \<or> a n = b n"
  using assms by (cases t) (auto simp: defined_names_def split: sum.splits if_splits)

lemma static_init_error_indep:
  "(static_init m ts s1 = Inl e) = (static_init m ts s2 = Inl e)"
proof (induction ts arbitrary: s1 s2)
  case Nil
  show ?case by simp
next
  case (Cons t ts)
  show ?case
  proof (cases "init_item m t s1")
    case (Inl e1)
    then have "init_item m t s2 = Inl e1"
      using init_item_error_indep by blast
    with Inl show ?thesis by simp
  next
    case (Inr a)
    then obtain b where "init_item m t s2 = Inr b"
      using init_item_returns by blast
    with Inr Cons.IH [of a b] show ?thesis by simp
  qed
qed

lemma static_init_agree:
  assumes "static_init m ts s1 = Inr a" and "static_init m ts s2 = Inr b"
    and "n \<in> set (defined_names ts) \<or> s1 n = s2 n"
  shows "a n = b n"
  using assms
proof (induction ts arbitrary: s1 s2)
  case Nil
  then show ?case by (simp add: defined_names_def)
next
  case (Cons t ts)
  from Cons.prems(1) obtain a1 where
    a1: "init_item m t s1 = Inr a1" "static_init m ts a1 = Inr a"
    by (auto split: sum.splits)
  from Cons.prems(2) obtain b1 where
    b1: "init_item m t s2 = Inr b1" "static_init m ts b1 = Inr b"
    by (auto split: sum.splits)
  have "n \<in> set (defined_names ts) \<or> a1 n = b1 n"
    using a1(1) b1(1) Cons.prems(3) by (rule init_item_agree)
  with a1(2) b1(2) show ?case
    by (rule Cons.IH)
qed

lemma static_init_returns:
  assumes "list_all (\<lambda>d. ctype d = C_int) (objects ts)"
    and "list_all (macro_defined m) (macros_used ts)"
  shows "\<exists>s'. static_init m ts s = Inr s'"
  using assms
proof (induction ts arbitrary: s)
  case Nil
  show ?case by simp
next
  case (Cons t ts)
  show ?case
  proof (cases t)
    case (Object_def d)
    with Cons.prems obtain v where "init_value m d = Inr v"
      by (cases "init d"; cases "the (init d)") (auto simp: macro_defined_def init_value_def)
    moreover from Object_def Cons.prems have "list_all (\<lambda>d. ctype d = C_int) (objects ts)"
      and "list_all (macro_defined m) (macros_used ts)"
      by (auto split: option.splits initializer.splits)
    then have "\<exists>s'. static_init m ts (s(name d \<mapsto> v)) = Inr s'"
      by (rule Cons.IH)
    ultimately show ?thesis
      using Object_def by simp
  qed (use Cons in auto)
qed

section \<open>Facts about the file\<close>

lemma macros_used_file:
  "macros_used pycore_backoff_c =
     [''JUMP_BACKWARD_INITIAL_VALUE'', ''JUMP_BACKWARD_INITIAL_BACKOFF'',
      ''SIDE_EXIT_INITIAL_VALUE'', ''SIDE_EXIT_INITIAL_BACKOFF'',
      ''ADAPTIVE_COOLDOWN_VALUE'', ''MAX_CHAIN_DEPTH'']"
  by (simp add: pycore_backoff_c_def int_def_def)

lemma defined_names_file:
  "defined_names pycore_backoff_c =
     [''_Py_JumpBackwardInitialValue'', ''_Py_JumpBackwardInitialBackoff'',
      ''_Py_SideExitInitialValue'', ''_Py_SideExitInitialBackoff'',
      ''_Py_AdaptiveCoolDownValue'', ''_Py_MaxChainDepth'', ''_Py_ConfidenceLowerLimit'']"
  by (simp add: pycore_backoff_c_def int_def_def defined_names_def)

lemma objects_file_int: "list_all (\<lambda>d. ctype d = C_int) (objects pycore_backoff_c)"
  by (simp add: pycore_backoff_c_def int_def_def)

lemma static_init_file:
  assumes "m ''JUMP_BACKWARD_INITIAL_VALUE'' = Some v1"
    and "m ''JUMP_BACKWARD_INITIAL_BACKOFF'' = Some v2"
    and "m ''SIDE_EXIT_INITIAL_VALUE'' = Some v3"
    and "m ''SIDE_EXIT_INITIAL_BACKOFF'' = Some v4"
    and "m ''ADAPTIVE_COOLDOWN_VALUE'' = Some v5"
    and "m ''MAX_CHAIN_DEPTH'' = Some v6"
  shows "static_init m pycore_backoff_c s =
    Inr (s(''_Py_JumpBackwardInitialValue'' \<mapsto> word_of_int v1,
           ''_Py_JumpBackwardInitialBackoff'' \<mapsto> word_of_int v2,
           ''_Py_SideExitInitialValue'' \<mapsto> word_of_int v3,
           ''_Py_SideExitInitialBackoff'' \<mapsto> word_of_int v4,
           ''_Py_AdaptiveCoolDownValue'' \<mapsto> word_of_int v5,
           ''_Py_MaxChainDepth'' \<mapsto> word_of_int v6,
           ''_Py_ConfidenceLowerLimit'' \<mapsto> 333))"
  using assms by (simp add: pycore_backoff_c_def int_def_def init_value_def)

lemma macros_defined_obtain:
  assumes "list_all (macro_defined m) (macros_used pycore_backoff_c)"
  obtains v1 v2 v3 v4 v5 v6 where
    "m ''JUMP_BACKWARD_INITIAL_VALUE'' = Some v1"
    "m ''JUMP_BACKWARD_INITIAL_BACKOFF'' = Some v2"
    "m ''SIDE_EXIT_INITIAL_VALUE'' = Some v3"
    "m ''SIDE_EXIT_INITIAL_BACKOFF'' = Some v4"
    "m ''ADAPTIVE_COOLDOWN_VALUE'' = Some v5"
    "m ''MAX_CHAIN_DEPTH'' = Some v6"
  using assms unfolding macros_used_file macro_defined_def by auto

lemma globals_after_indep: "globals_after m ts s1 = globals_after m ts s2"
proof (cases "static_init m ts s1")
  case (Inl e)
  then have "static_init m ts s2 = Inl e"
    using static_init_error_indep by blast
  with Inl show ?thesis by (simp add: globals_after_def)
next
  case (Inr a)
  have "\<exists>b. static_init m ts s2 = Inr b"
  proof (cases "static_init m ts s2")
    case (Inl e)
    then have "static_init m ts s1 = Inl e"
      using static_init_error_indep by blast
    with Inr show ?thesis by simp
  qed simp
  then obtain b where b: "static_init m ts s2 = Inr b" ..
  have "map a (defined_names ts) = map b (defined_names ts)"
  proof (rule map_cong [OF refl])
    fix n assume "n \<in> set (defined_names ts)"
    then have "n \<in> set (defined_names ts) \<or> s1 n = s2 n" by simp
    with Inr b show "a n = b n" by (rule static_init_agree)
  qed
  with Inr b show ?thesis by (simp add: globals_after_def)
qed

section \<open>The claims\<close>

text \<open>
  Claim C1. The file contains no algorithm, protocol, state machine or concurrency logic:
  it defines no function and no type (struct, union, enum or typedef), and every object
  it defines is a plain initialized integer global, of type \<^verbatim>\<open>int\<close>, with an
  initializer and no qualifier.
\<close>

theorem file_defines_only_plain_int_globals:
  "filter is_function_def pycore_backoff_c = [] \<and>
   filter is_type_def pycore_backoff_c = [] \<and>
   list_all plain_int_global (objects pycore_backoff_c)"
  by (simp add: pycore_backoff_c_def int_def_def plain_int_global_def)

text \<open>
  Claim C2. The file declares integer tunables of each of the four kinds, every one of
  C type \<^verbatim>\<open>int\<close>: the initial backoff counters (the two jump-backward and the two
  side-exit globals), the cooldown threshold, the maximal trace-chain depth and the
  confidence limit. These are all the objects of the file, in this order.
\<close>

theorem tunables_declared_as_int:
  "map (\<lambda>d. (name d, ctype d)) (objects pycore_backoff_c) =
    [(''_Py_JumpBackwardInitialValue'', C_int), (''_Py_JumpBackwardInitialBackoff'', C_int),
     (''_Py_SideExitInitialValue'', C_int), (''_Py_SideExitInitialBackoff'', C_int),
     (''_Py_AdaptiveCoolDownValue'', C_int), (''_Py_MaxChainDepth'', C_int),
     (''_Py_ConfidenceLowerLimit'', C_int)]"
  by (simp add: pycore_backoff_c_def int_def_def)

text \<open>
  Claim C3, as stated: the number of distinct integer globals defined in the file is
  five. It is not: the count differs from five.
\<close>

theorem five_integer_globals_refuted:
  "length (remdups (map name (integer_globals pycore_backoff_c))) \<noteq> 5"
  by (simp add: pycore_backoff_c_def int_def_def integer_globals_def)

text \<open>
  Claim C3, amended: the number of distinct integer globals defined in the file is
  seven.
\<close>

theorem seven_integer_globals:
  "length (remdups (map name (integer_globals pycore_backoff_c))) = 7"
  by (simp add: pycore_backoff_c_def int_def_def integer_globals_def)

text \<open>
  Claim C5. Each of the six macro-derived globals is initialized with the configuration
  macro the claim lists for it, and when these macros are defined, initialization
  succeeds and leaves in each of the six globals exactly the value of its macro:
  \<^verbatim>\<open>_Py_JumpBackwardInitialValue = JUMP_BACKWARD_INITIAL_VALUE\<close>,
  \<^verbatim>\<open>_Py_JumpBackwardInitialBackoff = JUMP_BACKWARD_INITIAL_BACKOFF\<close>,
  \<^verbatim>\<open>_Py_SideExitInitialValue = SIDE_EXIT_INITIAL_VALUE\<close>,
  \<^verbatim>\<open>_Py_SideExitInitialBackoff = SIDE_EXIT_INITIAL_BACKOFF\<close>,
  \<^verbatim>\<open>_Py_AdaptiveCoolDownValue = ADAPTIVE_COOLDOWN_VALUE\<close>,
  \<^verbatim>\<open>_Py_MaxChainDepth = MAX_CHAIN_DEPTH\<close>.
\<close>

theorem macro_globals_initial_values:
  assumes "list_all (macro_defined m) (macros_used pycore_backoff_c)"
  shows "map (\<lambda>d. (name d, init d)) (filter macro_initialized (objects pycore_backoff_c)) =
      [(''_Py_JumpBackwardInitialValue'', Some (Macro ''JUMP_BACKWARD_INITIAL_VALUE'')),
       (''_Py_JumpBackwardInitialBackoff'', Some (Macro ''JUMP_BACKWARD_INITIAL_BACKOFF'')),
       (''_Py_SideExitInitialValue'', Some (Macro ''SIDE_EXIT_INITIAL_VALUE'')),
       (''_Py_SideExitInitialBackoff'', Some (Macro ''SIDE_EXIT_INITIAL_BACKOFF'')),
       (''_Py_AdaptiveCoolDownValue'', Some (Macro ''ADAPTIVE_COOLDOWN_VALUE'')),
       (''_Py_MaxChainDepth'', Some (Macro ''MAX_CHAIN_DEPTH''))] \<and>
    (\<exists>s'. static_init m pycore_backoff_c s = Inr s' \<and>
      s' ''_Py_JumpBackwardInitialValue'' =
        map_option word_of_int (m ''JUMP_BACKWARD_INITIAL_VALUE'') \<and>
      s' ''_Py_JumpBackwardInitialBackoff'' =
        map_option word_of_int (m ''JUMP_BACKWARD_INITIAL_BACKOFF'') \<and>
      s' ''_Py_SideExitInitialValue'' =
        map_option word_of_int (m ''SIDE_EXIT_INITIAL_VALUE'') \<and>
      s' ''_Py_SideExitInitialBackoff'' =
        map_option word_of_int (m ''SIDE_EXIT_INITIAL_BACKOFF'') \<and>
      s' ''_Py_AdaptiveCoolDownValue'' =
        map_option word_of_int (m ''ADAPTIVE_COOLDOWN_VALUE'') \<and>
      s' ''_Py_MaxChainDepth'' =
        map_option word_of_int (m ''MAX_CHAIN_DEPTH'') \<and>
      list_all (\<lambda>n. s' n \<noteq> None)
        [''_Py_JumpBackwardInitialValue'', ''_Py_JumpBackwardInitialBackoff'',
         ''_Py_SideExitInitialValue'', ''_Py_SideExitInitialBackoff'',
         ''_Py_AdaptiveCoolDownValue'', ''_Py_MaxChainDepth''])"
proof -
  have inits:
    "map (\<lambda>d. (name d, init d)) (filter macro_initialized (objects pycore_backoff_c)) =
      [(''_Py_JumpBackwardInitialValue'', Some (Macro ''JUMP_BACKWARD_INITIAL_VALUE'')),
       (''_Py_JumpBackwardInitialBackoff'', Some (Macro ''JUMP_BACKWARD_INITIAL_BACKOFF'')),
       (''_Py_SideExitInitialValue'', Some (Macro ''SIDE_EXIT_INITIAL_VALUE'')),
       (''_Py_SideExitInitialBackoff'', Some (Macro ''SIDE_EXIT_INITIAL_BACKOFF'')),
       (''_Py_AdaptiveCoolDownValue'', Some (Macro ''ADAPTIVE_COOLDOWN_VALUE'')),
       (''_Py_MaxChainDepth'', Some (Macro ''MAX_CHAIN_DEPTH''))]"
    by (simp add: pycore_backoff_c_def int_def_def)
  from assms obtain v1 v2 v3 v4 v5 v6 where vs:
      "m ''JUMP_BACKWARD_INITIAL_VALUE'' = Some v1"
      "m ''JUMP_BACKWARD_INITIAL_BACKOFF'' = Some v2"
      "m ''SIDE_EXIT_INITIAL_VALUE'' = Some v3"
      "m ''SIDE_EXIT_INITIAL_BACKOFF'' = Some v4"
      "m ''ADAPTIVE_COOLDOWN_VALUE'' = Some v5"
      "m ''MAX_CHAIN_DEPTH'' = Some v6"
      by (rule macros_defined_obtain)
  have stored: "\<exists>s'. static_init m pycore_backoff_c s = Inr s' \<and>
      s' ''_Py_JumpBackwardInitialValue'' =
        map_option word_of_int (m ''JUMP_BACKWARD_INITIAL_VALUE'') \<and>
      s' ''_Py_JumpBackwardInitialBackoff'' =
        map_option word_of_int (m ''JUMP_BACKWARD_INITIAL_BACKOFF'') \<and>
      s' ''_Py_SideExitInitialValue'' =
        map_option word_of_int (m ''SIDE_EXIT_INITIAL_VALUE'') \<and>
      s' ''_Py_SideExitInitialBackoff'' =
        map_option word_of_int (m ''SIDE_EXIT_INITIAL_BACKOFF'') \<and>
      s' ''_Py_AdaptiveCoolDownValue'' =
        map_option word_of_int (m ''ADAPTIVE_COOLDOWN_VALUE'') \<and>
      s' ''_Py_MaxChainDepth'' =
        map_option word_of_int (m ''MAX_CHAIN_DEPTH'') \<and>
      list_all (\<lambda>n. s' n \<noteq> None)
        [''_Py_JumpBackwardInitialValue'', ''_Py_JumpBackwardInitialBackoff'',
         ''_Py_SideExitInitialValue'', ''_Py_SideExitInitialBackoff'',
         ''_Py_AdaptiveCoolDownValue'', ''_Py_MaxChainDepth'']"
    unfolding static_init_file [OF vs, of s] using vs by simp
  from inits stored show ?thesis by (rule conjI)
qed

theorem macro_globals_initial_values_witness:
  "list_all (macro_defined example_macros) (macros_used pycore_backoff_c) \<and>
   (\<exists>s'. static_init example_macros pycore_backoff_c [''_Py_MaxChainDepth'' \<mapsto> 99] = Inr s' \<and>
      s' ''_Py_JumpBackwardInitialValue'' = Some 4095 \<and>
      s' ''_Py_JumpBackwardInitialBackoff'' = Some 12 \<and>
      s' ''_Py_SideExitInitialValue'' = Some 4095 \<and>
      s' ''_Py_SideExitInitialBackoff'' = Some 12 \<and>
      s' ''_Py_AdaptiveCoolDownValue'' = Some 52 \<and>
      s' ''_Py_MaxChainDepth'' = Some 4)"
proof -
  have h: "list_all (macro_defined example_macros) (macros_used pycore_backoff_c)"
    by (simp add: macros_used_file macro_defined_def example_macros_def)
  show ?thesis
    using h macro_globals_initial_values [OF h, of "[''_Py_MaxChainDepth'' \<mapsto> 99]"]
    by (auto simp add: example_macros_def)
qed

text \<open>
  Claim C6. \<^verbatim>\<open>_Py_ConfidenceLowerLimit\<close> is initialized with the integer literal 333, so
  its initial value is 333 whatever the macros are; it is the only global of the file
  with a literal initializer, the other six take the value of a named macro.
\<close>

theorem confidence_lower_limit_literal_333:
  "initializer_of pycore_backoff_c ''_Py_ConfidenceLowerLimit'' = Some (Literal 333) \<and>
   map name (filter literal_initialized (objects pycore_backoff_c)) =
     [''_Py_ConfidenceLowerLimit''] \<and>
   map name (filter macro_initialized (objects pycore_backoff_c)) =
     [''_Py_JumpBackwardInitialValue'', ''_Py_JumpBackwardInitialBackoff'',
      ''_Py_SideExitInitialValue'', ''_Py_SideExitInitialBackoff'',
      ''_Py_AdaptiveCoolDownValue'', ''_Py_MaxChainDepth''] \<and>
   map_option (init_value m) (lookup_object pycore_backoff_c ''_Py_ConfidenceLowerLimit'') =
     Some (Inr 333)"
  by (simp add: pycore_backoff_c_def int_def_def initializer_of_def init_value_def)

text \<open>
  Claim C7. Initializing the translation unit modifies only the seven globals it
  defines: when the macros are defined, initialization succeeds from any store, and any
  component of the store other than the seven globals has the value it had before.
\<close>

theorem initialization_modifies_only_globals:
  assumes "list_all (macro_defined m) (macros_used pycore_backoff_c)"
    and "n \<notin> {''_Py_JumpBackwardInitialValue'', ''_Py_JumpBackwardInitialBackoff'',
      ''_Py_SideExitInitialValue'', ''_Py_SideExitInitialBackoff'',
      ''_Py_AdaptiveCoolDownValue'', ''_Py_MaxChainDepth'', ''_Py_ConfidenceLowerLimit''}"
  shows "\<exists>s'. static_init m pycore_backoff_c s = Inr s' \<and> s' n = s n"
proof -
  from objects_file_int assms(1) obtain s' where s': "static_init m pycore_backoff_c s = Inr s'"
    using static_init_returns by blast
  from assms(2) have "n \<notin> set (defined_names pycore_backoff_c)"
    unfolding defined_names_file by simp
  with s' have "s' n = s n"
    by (rule static_init_keeps_other_names)
  with s' show ?thesis by simp
qed

theorem initialization_modifies_only_globals_witness:
  "list_all (macro_defined example_macros) (macros_used pycore_backoff_c) \<and>
   ''_Py_OtherGlobal'' \<notin> {''_Py_JumpBackwardInitialValue'', ''_Py_JumpBackwardInitialBackoff'',
      ''_Py_SideExitInitialValue'', ''_Py_SideExitInitialBackoff'',
      ''_Py_AdaptiveCoolDownValue'', ''_Py_MaxChainDepth'', ''_Py_ConfidenceLowerLimit''} \<and>
   (\<exists>s'. static_init example_macros pycore_backoff_c [''_Py_OtherGlobal'' \<mapsto> 7] = Inr s' \<and>
         s' ''_Py_OtherGlobal'' = Some 7)"
proof -
  have h: "list_all (macro_defined example_macros) (macros_used pycore_backoff_c)"
    by (simp add: macros_used_file macro_defined_def example_macros_def)
  have k: "''_Py_OtherGlobal'' \<notin> {''_Py_JumpBackwardInitialValue'',
      ''_Py_JumpBackwardInitialBackoff'', ''_Py_SideExitInitialValue'',
      ''_Py_SideExitInitialBackoff'', ''_Py_AdaptiveCoolDownValue'', ''_Py_MaxChainDepth'',
      ''_Py_ConfidenceLowerLimit''}"
    by simp
  show ?thesis
    using h k initialization_modifies_only_globals [OF h k, of "[''_Py_OtherGlobal'' \<mapsto> 7]"]
    by simp
qed

text \<open>
  Claim C8. Every global of the file is visible to other translation units: none of the
  seven definitions is \<^verbatim>\<open>static\<close>, each has external linkage, and a reference by name from
  the surrounding code resolves to it.
\<close>

theorem globals_have_external_linkage:
  "list_all (\<lambda>d. storage d \<noteq> Static \<and> linkage_of d = External) (objects pycore_backoff_c) \<and>
   list_all (extern_visible pycore_backoff_c)
     [''_Py_JumpBackwardInitialValue'', ''_Py_JumpBackwardInitialBackoff'',
      ''_Py_SideExitInitialValue'', ''_Py_SideExitInitialBackoff'',
      ''_Py_AdaptiveCoolDownValue'', ''_Py_MaxChainDepth'', ''_Py_ConfidenceLowerLimit'']"
  by (simp add: pycore_backoff_c_def int_def_def)

text \<open>
  Claim C9. Initialization is deterministic and independent of runtime input: when the
  macros are defined, two runs from any two stores both succeed, and after each of them
  every one of the seven globals holds a value, the same in both runs: the value of its
  macro for the six macro-derived globals and 333 for the seventh, whatever the stores
  held before.
\<close>

theorem initialization_deterministic:
  assumes "list_all (macro_defined m) (macros_used pycore_backoff_c)"
  shows "\<exists>vs. length vs = 7 \<and> list_all (\<lambda>v. v \<noteq> None) vs \<and>
     vs = [map_option word_of_int (m ''JUMP_BACKWARD_INITIAL_VALUE''),
           map_option word_of_int (m ''JUMP_BACKWARD_INITIAL_BACKOFF''),
           map_option word_of_int (m ''SIDE_EXIT_INITIAL_VALUE''),
           map_option word_of_int (m ''SIDE_EXIT_INITIAL_BACKOFF''),
           map_option word_of_int (m ''ADAPTIVE_COOLDOWN_VALUE''),
           map_option word_of_int (m ''MAX_CHAIN_DEPTH''),
           Some 333] \<and>
     globals_after m pycore_backoff_c s1 = Inr vs \<and>
     globals_after m pycore_backoff_c s2 = Inr vs"
proof -
  from assms obtain v1 v2 v3 v4 v5 v6 where vs:
      "m ''JUMP_BACKWARD_INITIAL_VALUE'' = Some v1"
      "m ''JUMP_BACKWARD_INITIAL_BACKOFF'' = Some v2"
      "m ''SIDE_EXIT_INITIAL_VALUE'' = Some v3"
      "m ''SIDE_EXIT_INITIAL_BACKOFF'' = Some v4"
      "m ''ADAPTIVE_COOLDOWN_VALUE'' = Some v5"
      "m ''MAX_CHAIN_DEPTH'' = Some v6"
      by (rule macros_defined_obtain)
  have first: "globals_after m pycore_backoff_c s1 =
      Inr [Some (word_of_int v1), Some (word_of_int v2), Some (word_of_int v3),
           Some (word_of_int v4), Some (word_of_int v5), Some (word_of_int v6), Some 333]"
    unfolding globals_after_def static_init_file [OF vs, of s1] defined_names_file
    by simp
  have "globals_after m pycore_backoff_c s2 = globals_after m pycore_backoff_c s1"
    by (rule globals_after_indep)
  with first vs show ?thesis by simp
qed

theorem initialization_deterministic_witness:
  "list_all (macro_defined example_macros) (macros_used pycore_backoff_c) \<and>
   globals_after example_macros pycore_backoff_c Map.empty =
     Inr [Some 4095, Some 12, Some 4095, Some 12, Some 52, Some 4, Some 333] \<and>
   globals_after example_macros pycore_backoff_c
       [''_Py_MaxChainDepth'' \<mapsto> 99, ''_Py_ConfidenceLowerLimit'' \<mapsto> 0] =
     Inr [Some 4095, Some 12, Some 4095, Some 12, Some 52, Some 4, Some 333]"
proof -
  have h: "list_all (macro_defined example_macros) (macros_used pycore_backoff_c)"
    by (simp add: macros_used_file macro_defined_def example_macros_def)
  show ?thesis
    using h initialization_deterministic [OF h, of Map.empty
        "[''_Py_MaxChainDepth'' \<mapsto> 99, ''_Py_ConfidenceLowerLimit'' \<mapsto> 0]"]
    by (simp add: example_macros_def)
qed

end
